theory Spec2Isabelle
  imports Complex_Main
begin

section \<open>JavaScript numbers\<close>

text \<open>
  Every number of the source is an IEEE double. The model keeps the four kinds of double
  (finite, \<open>+Infinity\<close>, \<open>-Infinity\<close>, \<open>NaN\<close>) and the rules by which the
  operators, the comparisons, the truthiness test and the functions of \<open>Math\<close> treat them.
  A finite value is an exact real: the rounding of a finite result, the overflow of finite
  arithmetic to an infinity and the sign of zero are outside the model, and an equation
  between two computed values is an equation between the exact values. Coordinates come
  from parsed JSON, which has no literal for an infinity or \<open>NaN\<close>; the functions below
  nevertheless accept any number, as the source does.
\<close>

datatype jsnum = Fin real | PInf | NInf | NaN

instantiation jsnum :: "{comm_monoid_add, uminus, minus, times, abs, inverse}"
begin

definition zero_jsnum :: jsnum where
  "zero_jsnum = Fin 0"

fun plus_jsnum :: "jsnum \<Rightarrow> jsnum \<Rightarrow> jsnum" where
  "Fin a + Fin b = Fin (a + b)"
| "NaN + _ = NaN"
| "_ + NaN = NaN"
| "PInf + NInf = NaN"
| "NInf + PInf = NaN"
| "PInf + _ = PInf"
| "_ + PInf = PInf"
| "NInf + _ = NInf"
| "_ + NInf = NInf"

fun uminus_jsnum :: "jsnum \<Rightarrow> jsnum" where
  "- Fin a = Fin (- a)"
| "- PInf = NInf"
| "- NInf = PInf"
| "- NaN = NaN"

definition minus_jsnum :: "jsnum \<Rightarrow> jsnum \<Rightarrow> jsnum" where
  "minus_jsnum a b = a + (- b)"

fun times_jsnum :: "jsnum \<Rightarrow> jsnum \<Rightarrow> jsnum" where
  "Fin a * Fin b = Fin (a * b)"
| "NaN * _ = NaN"
| "_ * NaN = NaN"
| "Fin a * PInf = (if 0 < a then PInf else if a < 0 then NInf else NaN)"
| "Fin a * NInf = (if 0 < a then NInf else if a < 0 then PInf else NaN)"
| "PInf * Fin b = (if 0 < b then PInf else if b < 0 then NInf else NaN)"
| "NInf * Fin b = (if 0 < b then NInf else if b < 0 then PInf else NaN)"
| "PInf * PInf = PInf"
| "PInf * NInf = NInf"
| "NInf * PInf = NInf"
| "NInf * NInf = PInf"

fun abs_jsnum :: "jsnum \<Rightarrow> jsnum" where
  "abs (Fin a) = Fin (abs a)"
| "abs PInf = PInf"
| "abs NInf = PInf"
| "abs NaN = NaN"

fun divide_jsnum :: "jsnum \<Rightarrow> jsnum \<Rightarrow> jsnum" where
  "divide_jsnum (Fin a) (Fin b) =
     (if b \<noteq> 0 then Fin (a / b)
      else if 0 < a then PInf else if a < 0 then NInf else NaN)"
| "divide_jsnum NaN _ = NaN"
| "divide_jsnum _ NaN = NaN"
| "divide_jsnum (Fin a) PInf = Fin 0"
| "divide_jsnum (Fin a) NInf = Fin 0"
| "divide_jsnum PInf (Fin b) = (if 0 \<le> b then PInf else NInf)"
| "divide_jsnum NInf (Fin b) = (if 0 \<le> b then NInf else PInf)"
| "divide_jsnum PInf PInf = NaN"
| "divide_jsnum PInf NInf = NaN"
| "divide_jsnum NInf PInf = NaN"
| "divide_jsnum NInf NInf = NaN"

definition inverse_jsnum :: "jsnum \<Rightarrow> jsnum" where
  "inverse_jsnum a = divide (Fin 1) a"

instance
proof
  fix x y z :: jsnum
  show "x + y + z = x + (y + z)"
    by (cases x; cases y; cases z; simp)
  show "x + y = y + x"
    by (cases x; cases y; simp)
  show "0 + x = x"
    unfolding zero_jsnum_def by (cases x; simp)
qed

end

text \<open>
  The comparisons \<open>a < b\<close> and \<open>a > b\<close> of the source: false as soon as one side is
  \<open>NaN\<close>.
\<close>

fun js_lt :: "jsnum \<Rightarrow> jsnum \<Rightarrow> bool" where
  "js_lt (Fin a) (Fin b) = (a < b)"
| "js_lt NaN _ = False"
| "js_lt _ NaN = False"
| "js_lt PInf _ = False"
| "js_lt _ NInf = False"
| "js_lt NInf _ = True"
| "js_lt _ PInf = True"

definition js_gt :: "jsnum \<Rightarrow> jsnum \<Rightarrow> bool" where
  "js_gt a b = js_lt b a"

text \<open>
  Truthiness of a value that is \<open>null\<close> or a number (\<open>if (area)\<close>,
  \<open>totalSqFt ? ... : null\<close>): \<open>null\<close>, zero and \<open>NaN\<close> are falsy.
\<close>

fun truthy :: "jsnum option \<Rightarrow> bool" where
  "truthy None = False"
| "truthy (Some (Fin a)) = (a \<noteq> 0)"
| "truthy (Some NaN) = False"
| "truthy (Some PInf) = True"
| "truthy (Some NInf) = True"

subsection \<open>The functions of \<open>Math\<close> that the source calls\<close>

definition Math_PI :: jsnum where
  "Math_PI = Fin pi"

text \<open>\<open>Math.round\<close> rounds to the nearest integer, a half towards \<open>+Infinity\<close>;
  it returns an infinity or \<open>NaN\<close> unchanged.\<close>

fun Math_round :: "jsnum \<Rightarrow> jsnum" where
  "Math_round (Fin a) = Fin (of_int \<lfloor>a + 1 / 2\<rfloor>)"
| "Math_round PInf = PInf"
| "Math_round NInf = NInf"
| "Math_round NaN = NaN"

definition Math_abs :: "jsnum \<Rightarrow> jsnum" where
  "Math_abs a = abs a"

text \<open>\<open>Math.log\<close>: \<open>-Infinity\<close> at zero, \<open>NaN\<close> below it.\<close>

fun Math_log :: "jsnum \<Rightarrow> jsnum" where
  "Math_log (Fin a) = (if 0 < a then Fin (ln a) else if a = 0 then NInf else NaN)"
| "Math_log PInf = PInf"
| "Math_log NInf = NaN"
| "Math_log NaN = NaN"

text \<open>
  \<open>Math.tan\<close>. No double is an odd multiple of \<open>pi / 2\<close>, so the source never
  evaluates the tangent at a pole; the exact reals of the model can. Within the latitudes
  from \<open>-90\<close> to \<open>90\<close> this happens at latitude \<open>90\<close> only, where the source
  evaluates \<open>Math.tan(Math.PI / 2)\<close>, the double \<open>16331239353195370\<close>; the model takes
  that value at a pole, with the sign of the sine, so that the projection of latitude
  \<open>90\<close> is finite in the model as it is in the source. At latitude \<open>-90\<close> the
  argument of the tangent is exactly \<open>0\<close>, in doubles as well, and \<open>Math.log(0)\<close> is
  \<open>-Infinity\<close>.
\<close>

fun Math_tan :: "jsnum \<Rightarrow> jsnum" where
  "Math_tan (Fin a) =
     (if cos a = 0
      then (if 0 < sin a then Fin 16331239353195370 else Fin (- 16331239353195370))
      else Fin (tan a))"
| "Math_tan PInf = NaN"
| "Math_tan NInf = NaN"
| "Math_tan NaN = NaN"

section \<open>The data of the GIS responses\<close>

text \<open>
  A point is the pair \<open>[x(lon), y(lat)]\<close>, a ring an array of points, a geometry an
  object whose \<open>rings\<close> may be missing, a feature an object whose \<open>geometry\<close> may be
  missing.
\<close>

type_synonym point = "jsnum \<times> jsnum"

type_synonym ring = "point list"

record geometry =
  rings :: "ring list option"

record feature =
  geometry :: "geometry option"

datatype error = TypeError

text \<open>
  \<open>xs[i]\<close> outside the array is \<open>undefined\<close>, and every such read of the source goes
  on to take a property of the result (\<open>ring[i][0]\<close>, \<open>ring.length\<close>, a destructuring
  \<open>[x1, y1] = ring[i]\<close>), which throws a \<open>TypeError\<close>.
\<close>

definition elem_at :: "'a list \<Rightarrow> int \<Rightarrow> error + 'a" where
  "elem_at xs i = (if 0 \<le> i \<and> i < int (length xs) then Inr (xs ! nat i) else Inl TypeError)"

section \<open>The Mercator version of the area (\<open>src/unnamed/part_000\<close>)\<close>

definition R :: jsnum where
  "R = Fin 6378137"

definition lonLatToMercator :: "jsnum \<Rightarrow> jsnum \<Rightarrow> jsnum \<times> jsnum" where
  "lonLatToMercator lon lat =
     (let lam = (lon * Math_PI) / Fin 180;
          phi = (lat * Math_PI) / Fin 180;
          x = R * lam;
          y = R * Math_log (Math_tan (Math_PI / Fin 4 + phi / Fin 2))
      in (x, y))"

text \<open>The loop of \<open>ringAreaMeters2\<close>, from index \<open>i\<close>, with \<open>prev\<close> and \<open>area\<close>.\<close>

function ringAreaMeters2_loop ::
  "ring \<Rightarrow> nat \<Rightarrow> jsnum \<times> jsnum \<Rightarrow> jsnum \<Rightarrow> error + (jsnum \<times> jsnum) \<times> jsnum" where
  "ringAreaMeters2_loop ring i prev area =
     (if i < length ring then
        (case elem_at ring (int i) of
           Inl e \<Rightarrow> Inl e
         | Inr p \<Rightarrow>
             (let curr = lonLatToMercator (fst p) (snd p)
              in ringAreaMeters2_loop ring (i + 1) curr
                   (area + (fst prev * snd curr - fst curr * snd prev))))
      else Inr (prev, area))"
  by pat_completeness auto
termination
  by (relation "measure (\<lambda>(ring, i, prev, area). length ring - i)") auto

declare ringAreaMeters2_loop.simps [simp del]

definition ringAreaMeters2 :: "ring \<Rightarrow> error + jsnum" where
  "ringAreaMeters2 ring =
     (if length ring < 3 then Inr 0
      else
        (case elem_at ring 0 of
           Inl e \<Rightarrow> Inl e
         | Inr p0 \<Rightarrow>
             (case ringAreaMeters2_loop ring 1 (lonLatToMercator (fst p0) (snd p0)) 0 of
                Inl e \<Rightarrow> Inl e
              | Inr (prev, area) \<Rightarrow>
                  (let first = lonLatToMercator (fst p0) (snd p0)
                   in Inr (Math_abs (area + (fst prev * snd first - fst first * snd prev))
                        / Fin 2)))))"

text \<open>The loop of \<open>signedAreaLonLat\<close>: \<open>j\<close> starts at \<open>ring.length - 1\<close>, which is
  \<open>-1\<close> for an empty ring, and then follows \<open>i\<close>.\<close>

function signedAreaLonLat_loop :: "ring \<Rightarrow> nat \<Rightarrow> int \<Rightarrow> jsnum \<Rightarrow> error + jsnum" where
  "signedAreaLonLat_loop ring i j sum_acc =
     (if i < length ring then
        (case elem_at ring (int i) of
           Inl e \<Rightarrow> Inl e
         | Inr p_i \<Rightarrow>
             (case elem_at ring j of
                Inl e \<Rightarrow> Inl e
              | Inr p_j \<Rightarrow>
                  signedAreaLonLat_loop ring (i + 1) (int i)
                    (sum_acc + (fst p_j - fst p_i) * (snd p_i + snd p_j))))
      else Inr sum_acc)"
  by pat_completeness auto
termination
  by (relation "measure (\<lambda>(ring, i, j, sum_acc). length ring - i)") auto

declare signedAreaLonLat_loop.simps [simp del]

definition signedAreaLonLat :: "ring \<Rightarrow> error + jsnum" where
  "signedAreaLonLat ring =
     (case signedAreaLonLat_loop ring 0 (int (length ring) - 1) 0 of
        Inl e \<Rightarrow> Inl e
      | Inr sum_acc \<Rightarrow> Inr (sum_acc / Fin 2))"

text \<open>The loop over the rings, from index \<open>r\<close>, with \<open>totalMeters2\<close>.\<close>

function calculatePolygonAreaSqFt_loop :: "ring list \<Rightarrow> nat \<Rightarrow> jsnum \<Rightarrow> error + jsnum" where
  "calculatePolygonAreaSqFt_loop rs r totalMeters2 =
     (if r < length rs then
        (case elem_at rs (int r) of
           Inl e \<Rightarrow> Inl e
         | Inr ring \<Rightarrow>
             (case signedAreaLonLat ring of
                Inl e \<Rightarrow> Inl e
              | Inr signed \<Rightarrow>
                  (case ringAreaMeters2 ring of
                     Inl e \<Rightarrow> Inl e
                   | Inr m2 \<Rightarrow>
                       calculatePolygonAreaSqFt_loop rs (r + 1)
                         (if js_lt signed 0 then totalMeters2 - m2 else totalMeters2 + m2))))
      else Inr totalMeters2)"
  by pat_completeness auto
termination
  by (relation "measure (\<lambda>(rs, r, totalMeters2). length rs - r)") auto

declare calculatePolygonAreaSqFt_loop.simps [simp del]

definition meters2ToSqFt :: jsnum where
  "meters2ToSqFt = Fin (1076391041671 / 100000000000)"

text \<open>The result is \<open>null\<close> (\<open>None\<close>) or a number.\<close>

definition calculatePolygonAreaSqFt :: "geometry option \<Rightarrow> error + jsnum option" where
  "calculatePolygonAreaSqFt g =
     (case g of
        None \<Rightarrow> Inr None
      | Some geo \<Rightarrow>
          (case rings geo of
             None \<Rightarrow> Inr None
           | Some rs \<Rightarrow>
               if length rs = 0 then Inr None
               else
                 (case calculatePolygonAreaSqFt_loop rs 0 0 of
                    Inl e \<Rightarrow> Inl e
                  | Inr totalMeters2 \<Rightarrow>
                      (let totalSqFt = totalMeters2 * meters2ToSqFt
                       in Inr (if js_gt totalSqFt 0 then Some (Math_round totalSqFt)
                               else None)))))"

text \<open>
  \<open>fetchBuildingFootprintArea\<close> after the response is parsed: \<open>data.features\<close> may be
  missing; \<open>forEach\<close> adds every truthy area; an exception is caught and gives \<open>null\<close>.
\<close>

fun forEach_feature :: "feature list \<Rightarrow> jsnum \<Rightarrow> error + jsnum" where
  "forEach_feature [] totalSqFt = Inr totalSqFt"
| "forEach_feature (f # fs) totalSqFt =
     (case calculatePolygonAreaSqFt (geometry f) of
        Inl e \<Rightarrow> Inl e
      | Inr area \<Rightarrow>
          forEach_feature fs
            (case area of
               None \<Rightarrow> totalSqFt
             | Some a \<Rightarrow> if truthy (Some a) then totalSqFt + a else totalSqFt))"

definition fetchBuildingFootprintArea :: "feature list option \<Rightarrow> jsnum option" where
  "fetchBuildingFootprintArea data_features =
     (case data_features of
        None \<Rightarrow> None
      | Some features \<Rightarrow>
          if length features = 0 then None
          else
            (case forEach_feature features 0 of
               Inl e \<Rightarrow> None
             | Inr totalSqFt \<Rightarrow>
                 if truthy (Some totalSqFt) then Some (Math_round totalSqFt) else None))"

section \<open>The first version of the area (\<open>src/gis.js\<close>)\<close>

function calculatePolygonAreaSqFt_gis_loop ::
  "ring \<Rightarrow> nat \<Rightarrow> int \<Rightarrow> jsnum \<Rightarrow> error + jsnum" where
  "calculatePolygonAreaSqFt_gis_loop ring i j area =
     (if i < length ring then
        (case elem_at ring (int i) of
           Inl e \<Rightarrow> Inl e
         | Inr p1 \<Rightarrow>
             (case elem_at ring j of
                Inl e \<Rightarrow> Inl e
              | Inr p2 \<Rightarrow>
                  calculatePolygonAreaSqFt_gis_loop ring (i + 1) (int i)
                    (area + (fst p2 - fst p1) * (snd p2 + snd p1))))
      else Inr area)"
  by pat_completeness auto
termination
  by (relation "measure (\<lambda>(ring, i, j, area). length ring - i)") auto

declare calculatePolygonAreaSqFt_gis_loop.simps [simp del]

text \<open>\<open>geometry.rings[0]\<close> of an empty \<open>rings\<close> is \<open>undefined\<close>, whose \<open>length\<close>
  throws.\<close>

definition calculatePolygonAreaSqFt_gis :: "geometry option \<Rightarrow> error + jsnum option" where
  "calculatePolygonAreaSqFt_gis g =
     (case g of
        None \<Rightarrow> Inr None
      | Some geo \<Rightarrow>
          (case rings geo of
             None \<Rightarrow> Inr None
           | Some rs \<Rightarrow>
               (case elem_at rs 0 of
                  Inl e \<Rightarrow> Inl e
                | Inr ring \<Rightarrow>
                    (case calculatePolygonAreaSqFt_gis_loop ring 0 (int (length ring) - 1) 0 of
                       Inl e \<Rightarrow> Inl e
                     | Inr area \<Rightarrow>
                         (let areaSqMeters = Math_abs area * Fin 12365;
                              areaSqFt = areaSqMeters * Fin (107639 / 10000)
                          in Inr (Some areaSqFt))))))"

section \<open>The formulas of the specification\<close>

text \<open>
  In the specification's words: \<open>x = R * radians(longitude)\<close>,
  \<open>y = R * ln(tan(pi/4 + radians(latitude)/2))\<close> with \<open>R = 6378137\<close>, and the
  magnitude of a ring as the absolute value of the sum of the cross products over the
  consecutive projected pairs, the pair that closes the ring included, divided by 2.
\<close>

definition spec_radians :: "jsnum \<Rightarrow> jsnum" where
  "spec_radians degrees = degrees * Fin (pi / 180)"

definition spec_project :: "point \<Rightarrow> jsnum \<times> jsnum" where
  "spec_project p =
     (Fin 6378137 * spec_radians (fst p),
      Fin 6378137 * Math_log (Math_tan (Fin (pi / 4) + spec_radians (snd p) / Fin 2)))"

definition spec_shoelace :: "(jsnum \<times> jsnum) list \<Rightarrow> jsnum" where
  "spec_shoelace ps = (\<Sum>(a, b)\<leftarrow>zip ps (rotate1 ps). fst a * snd b - fst b * snd a)"

definition spec_ring_magnitude :: "ring \<Rightarrow> jsnum" where
  "spec_ring_magnitude ring = abs (spec_shoelace (map spec_project ring)) / Fin 2"

text \<open>
  The signed area of a ring, in the specification's words: on the raw longitude/latitude
  pairs, for the consecutive pairs, the pair that closes the last point to the first
  included, the sum of \<open>(x_j - x_i) * (y_i + y_j)\<close>, divided by 2; \<open>j\<close> is the point
  in front of \<open>i\<close>. The contribution of a ring to the total is its magnitude, negated when
  the signed area is negative; a ring of fewer than 3 points has magnitude zero.
\<close>

definition spec_signed_area :: "ring \<Rightarrow> jsnum" where
  "spec_signed_area ring =
     (\<Sum>(p_j, p_i)\<leftarrow>zip ring (rotate1 ring). (fst p_j - fst p_i) * (snd p_i + snd p_j)) / Fin 2"

definition spec_contribution :: "ring \<Rightarrow> jsnum" where
  "spec_contribution ring =
     (let m2 = (if length ring < 3 then 0 else spec_ring_magnitude ring)
      in if js_lt (spec_signed_area ring) 0 then - m2 else m2)"

section \<open>Closed forms of the loops\<close>

text \<open>
  The loops of the source run over indices. The definitions below say what they compute as
  sums over the pairs of consecutive points; the lemmas of the next section prove that the
  loops return exactly these values and never throw.
\<close>

fun adj :: "'a list \<Rightarrow> ('a \<times> 'a) list" where
  "adj [] = []"
| "adj [x] = []"
| "adj (x # y # ys) = (x, y) # adj (y # ys)"

definition project :: "point \<Rightarrow> jsnum \<times> jsnum" where
  "project p = lonLatToMercator (fst p) (snd p)"

definition cross :: "jsnum \<times> jsnum \<Rightarrow> jsnum \<times> jsnum \<Rightarrow> jsnum" where
  "cross a b = fst a * snd b - fst b * snd a"

definition trapezoid :: "point \<Rightarrow> point \<Rightarrow> jsnum" where
  "trapezoid p_j p_i = (fst p_j - fst p_i) * (snd p_i + snd p_j)"

definition signedAreaLonLat_value :: "ring \<Rightarrow> jsnum" where
  "signedAreaLonLat_value ring =
     (if ring = [] then 0
      else trapezoid (last ring) (hd ring) + (\<Sum>(a, b)\<leftarrow>adj ring. trapezoid a b)) / Fin 2"

definition ringAreaMeters2_value :: "ring \<Rightarrow> jsnum" where
  "ringAreaMeters2_value ring =
     (if length ring < 3 then 0
      else Math_abs ((\<Sum>(a, b)\<leftarrow>adj (map project ring). cross a b)
             + cross (project (last ring)) (project (hd ring))) / Fin 2)"

definition ring_step :: "jsnum \<Rightarrow> ring \<Rightarrow> jsnum" where
  "ring_step tot ring =
     (if js_lt (signedAreaLonLat_value ring) 0 then tot - ringAreaMeters2_value ring
      else tot + ringAreaMeters2_value ring)"

text \<open>The area that a feature adds to the total of the footprints, and the values that an
  area can take.\<close>

definition feature_area :: "feature \<Rightarrow> jsnum" where
  "feature_area f =
     (case calculatePolygonAreaSqFt (geometry f) of Inr (Some area) \<Rightarrow> area | _ \<Rightarrow> 0)"

definition whole :: "jsnum \<Rightarrow> bool" where
  "whole v = (v = PInf \<or> (\<exists>n::nat. v = Fin (real n)))"

section \<open>Example inputs\<close>

text \<open>
  A triangle of one degree by thirty and the same triangle clockwise, a ring of two points,
  the triangle \<open>10^-15\<close> degrees wide, two rings with a point at the south pole, a
  rectangle \<open>3 * 10^-15\<close> degrees wide with a rectangular hole inside it, of the opposite
  orientation (\<open>mercator_y10\<close> is the projected \<open>y\<close> of latitude \<open>10\<close>), and a
  box of two degrees by thirty with its mirror image in the meridian, which is the same box
  clockwise.
\<close>

definition triangle :: ring where
  "triangle = [(Fin 0, Fin 0), (Fin 1, Fin 0), (Fin 0, Fin 30)]"

definition segment :: ring where
  "segment = [(Fin 0, Fin 0), (Fin 1, Fin 1)]"

definition sliver :: ring where
  "sliver = [(Fin 0, Fin 0), (Fin (1 / 10 ^ 15), Fin 0), (Fin 0, Fin 30)]"

definition pole_triangle :: ring where
  "pole_triangle = [(Fin 0, Fin (- 90)), (Fin 1, Fin 0), (Fin (- 1), Fin 0)]"

definition pole_quad :: ring where
  "pole_quad = [(Fin 0, Fin (- 90)), (Fin 1, Fin 0), (Fin 0, Fin 30), (Fin (- 1), Fin 0)]"




definition triangle_cw :: ring where
  "triangle_cw = [(Fin 0, Fin 30), (Fin 1, Fin 0), (Fin 0, Fin 0)]"

definition box :: ring where
  "box = [(Fin (- 1), Fin 0), (Fin 1, Fin 0), (Fin 1, Fin 30), (Fin (- 1), Fin 30)]"


section \<open>Lemmas\<close>

subsection \<open>Arithmetic of the special values\<close>

lemma jsnum_neg_add: "- (a + b) = - a + - (b::jsnum)"
  by (cases a; cases b) simp_all

lemma jsnum_neg_zero: "- (0::jsnum) = 0"
  by (simp add: zero_jsnum_def)

lemma jsnum_minus_swap: "a - b = - (b - (a::jsnum))"
  by (cases a; cases b) (simp_all add: minus_jsnum_def)

lemma jsnum_mult_neg_left: "(- a) * b = - (a * (b::jsnum))"
  by (cases a; cases b) simp_all

lemma jsnum_abs_neg: "abs (- a) = abs (a::jsnum)"
  by (cases a) simp_all

lemma jsnum_div_neg: "(- a) / Fin 2 = - (a / Fin 2)"
  by (cases a) simp_all

lemma sum_list_neg: "sum_list (map (\<lambda>x. - f x) xs) = - (sum_list (map f xs) :: jsnum)"
  by (induction xs) (simp_all add: jsnum_neg_zero jsnum_neg_add)

subsection \<open>The loops never read outside an array\<close>

lemma elem_at_nat: "i < length xs \<Longrightarrow> elem_at xs (int i) = Inr (xs ! i)"
  by (simp add: elem_at_def)

lemma elem_at_Suc: "Suc i < length xs \<Longrightarrow> elem_at xs (1 + int i) = Inr (xs ! Suc i)"
  by (simp add: elem_at_def nat_add_distrib)

lemma elem_at_0: "xs \<noteq> [] \<Longrightarrow> elem_at xs 0 = Inr (hd xs)"
  by (cases xs) (simp_all add: elem_at_def)

lemma elem_at_last: "xs \<noteq> [] \<Longrightarrow> elem_at xs (int (length xs) - 1) = Inr (last xs)"
  by (cases xs rule: rev_cases) (simp_all add: elem_at_def nth_append)

lemma adj_drop:
  "Suc i < length xs \<Longrightarrow> adj (drop i xs) = (xs ! i, xs ! Suc i) # adj (drop (Suc i) xs)"
proof -
  assume a: "Suc i < length xs"
  then have "drop i xs = xs ! i # drop (Suc i) xs"
    by (simp add: Cons_nth_drop_Suc)
  moreover from a have "drop (Suc i) xs = xs ! Suc i # drop (Suc (Suc i)) xs"
    by (simp add: Cons_nth_drop_Suc)
  ultimately show ?thesis by simp
qed

lemma adj_drop_short: "length xs \<le> Suc i \<Longrightarrow> adj (drop i xs) = []"
proof -
  assume "length xs \<le> Suc i"
  then have "length (drop i xs) \<le> 1" by simp
  then show ?thesis
    by (cases "drop i xs" rule: adj.cases) auto
qed

lemma signedAreaLonLat_loop_closed:
  "signedAreaLonLat_loop ring (Suc i) (int i) s =
     Inr (s + (\<Sum>(a, b)\<leftarrow>adj (drop i ring). trapezoid a b))"
proof (induction "length ring - i" arbitrary: i s)
  case 0
  then have "adj (drop i ring) = []"
    by (simp add: adj_drop_short)
  with 0 show ?case
    by (subst signedAreaLonLat_loop.simps) simp
next
  case (Suc n)
  show ?case
  proof (cases "Suc i < length ring")
    case True
    from Suc have "n = length ring - Suc i" by simp
    from Suc.hyps(1)[OF this] True show ?thesis
      by (subst signedAreaLonLat_loop.simps)
        (simp add: adj_drop trapezoid_def add.assoc elem_at_nat elem_at_Suc)
  next
    case False
    then have "adj (drop i ring) = []"
      by (simp add: adj_drop_short)
    with False show ?thesis
      by (subst signedAreaLonLat_loop.simps) simp
  qed
qed

lemma signedAreaLonLat_closed:
  "signedAreaLonLat ring = Inr (signedAreaLonLat_value ring)"
proof (cases ring)
  case Nil
  then show ?thesis
    by (simp add: signedAreaLonLat_def signedAreaLonLat_loop.simps signedAreaLonLat_value_def)
next
  case (Cons p ps)
  then have ne: "ring \<noteq> []" by simp
  have "signedAreaLonLat_loop ring 0 (int (length ring) - 1) 0 =
        signedAreaLonLat_loop ring (Suc 0) (int 0) (0 + trapezoid (last ring) (hd ring))"
    using ne by (subst signedAreaLonLat_loop.simps) (simp add: trapezoid_def elem_at_0 elem_at_last)
  then show ?thesis
    using ne signedAreaLonLat_loop_closed [of ring 0]
    by (simp add: signedAreaLonLat_def signedAreaLonLat_value_def)
qed

lemma ringAreaMeters2_loop_closed:
  "i < length ring \<Longrightarrow>
   ringAreaMeters2_loop ring (Suc i) (project (ring ! i)) area =
     Inr (project (last ring),
          area + (\<Sum>(a, b)\<leftarrow>adj (map project (drop i ring)). cross a b))"
proof (induction "length ring - i" arbitrary: i area)
  case 0
  then show ?case by simp
next
  case (Suc n)
  show ?case
  proof (cases "Suc i < length ring")
    case True
    from Suc have n: "n = length ring - Suc i" by simp
    from True have "adj (drop i (map project ring)) =
        (project (ring ! i), project (ring ! Suc i)) # adj (drop (Suc i) (map project ring))"
      by (simp add: adj_drop)
    then have a: "adj (map project (drop i ring)) =
        (project (ring ! i), project (ring ! Suc i)) # adj (map project (drop (Suc i) ring))"
      by (simp add: drop_map)
    from Suc.hyps(1)[OF n True] True show ?thesis
      by (subst ringAreaMeters2_loop.simps)
        (simp add: a cross_def project_def add.assoc elem_at_Suc Let_def)
  next
    case False
    with Suc.prems have l: "Suc i = length ring" by simp
    then have "adj (drop i (map project ring)) = []"
      by (simp add: adj_drop_short)
    then have a: "adj (map project (drop i ring)) = []"
      by (simp add: drop_map)
    from l have "ring \<noteq> []" by auto
    with l have "last ring = ring ! i"
      by (simp add: last_conv_nth flip: l)
    with l a show ?thesis
      by (subst ringAreaMeters2_loop.simps) simp
  qed
qed

lemma ringAreaMeters2_closed:
  "ringAreaMeters2 ring = Inr (ringAreaMeters2_value ring)"
proof (cases "length ring < 3")
  case True
  then show ?thesis by (simp add: ringAreaMeters2_def ringAreaMeters2_value_def)
next
  case False
  then have pos: "0 < length ring" by arith
  then have ne: "ring \<noteq> []" by simp
  then have h: "hd ring = ring ! 0" by (simp add: hd_conv_nth)
  from ringAreaMeters2_loop_closed [OF pos, of 0]
  have loop: "ringAreaMeters2_loop ring (Suc 0) (project (hd ring)) 0 =
      Inr (project (last ring), \<Sum>(a, b)\<leftarrow>adj (map project ring). cross a b)"
    by (simp add: h)
  from False ne show ?thesis
    by (simp add: ringAreaMeters2_def ringAreaMeters2_value_def elem_at_0 Let_def loop
        flip: project_def cross_def)
qed

lemma calculatePolygonAreaSqFt_loop_closed:
  "calculatePolygonAreaSqFt_loop rs r tot = Inr (foldl ring_step tot (drop r rs))"
proof (induction "length rs - r" arbitrary: r tot)
  case 0
  then show ?case
    by (subst calculatePolygonAreaSqFt_loop.simps) simp
next
  case (Suc n)
  then have lt: "r < length rs" by simp
  then have d: "drop r rs = rs ! r # drop (Suc r) rs"
    by (simp add: Cons_nth_drop_Suc)
  from Suc have "n = length rs - Suc r" by simp
  from Suc.hyps(1)[OF this] lt show ?case
    by (subst calculatePolygonAreaSqFt_loop.simps)
      (simp add: d elem_at_nat signedAreaLonLat_closed ringAreaMeters2_closed ring_step_def)
qed

subsection \<open>Reversing a ring\<close>

text \<open>
  The two lemmas on \<open>rev\<close> hold for the exact sums of the model. In doubles a sum depends
  on the order of its terms, so the magnitudes of a ring and of its reversal can differ in
  the last bit.
\<close>

lemma adj_snoc: "adj (xs @ [x]) = adj xs @ (if xs = [] then [] else [(last xs, x)])"
  by (induction xs rule: adj.induct) simp_all

lemma adj_rev: "adj (rev xs) = rev (map (\<lambda>(a, b). (b, a)) (adj xs))"
proof (induction xs rule: adj.induct)
  case (3 x y ys)
  have "adj (rev (x # y # ys)) = adj (rev (y # ys) @ [x])"
    by simp
  also have "\<dots> = adj (rev (y # ys)) @ [(y, x)]"
    by (subst adj_snoc) (simp add: last_rev)
  also have "\<dots> = rev (map (\<lambda>(a, b). (b, a)) (adj (y # ys))) @ [(y, x)]"
    by (simp only: 3)
  finally show ?case by simp
qed simp_all

lemma sum_list_adj_rev:
  "(\<Sum>(a, b)\<leftarrow>adj (rev xs). f a b) = (\<Sum>(a, b)\<leftarrow>adj xs. (f b a :: jsnum))"
proof -
  have "(\<Sum>(a, b)\<leftarrow>adj (rev xs). f a b) =
        sum_list (rev (map (\<lambda>(a, b). f b a) (adj xs)))"
    by (simp add: adj_rev rev_map comp_def case_prod_unfold)
  then show ?thesis
    by (simp add: rev_map [symmetric] del: rev_map)
qed

lemma trapezoid_swap: "trapezoid a b = - trapezoid b a"
  unfolding trapezoid_def
  by (subst jsnum_minus_swap) (simp add: jsnum_mult_neg_left add.commute)

lemma cross_swap: "cross a b = - cross b a"
  unfolding cross_def by (rule jsnum_minus_swap)

lemma signedAreaLonLat_value_rev:
  "signedAreaLonLat_value (rev ring) = - signedAreaLonLat_value ring"
proof (cases "ring = []")
  case True
  then show ?thesis
    by (simp add: signedAreaLonLat_value_def zero_jsnum_def)
next
  case False
  have "(\<Sum>(a, b)\<leftarrow>adj (rev ring). trapezoid a b) = (\<Sum>(a, b)\<leftarrow>adj ring. trapezoid b a)"
    by (rule sum_list_adj_rev)
  also have "\<dots> = (\<Sum>p\<leftarrow>adj ring. - (case p of (a, b) \<Rightarrow> trapezoid a b))"
    by (subst trapezoid_swap) (simp add: case_prod_unfold)
  also have "\<dots> = - (\<Sum>(a, b)\<leftarrow>adj ring. trapezoid a b)"
    by (rule sum_list_neg)
  finally have s: "(\<Sum>(a, b)\<leftarrow>adj (rev ring). trapezoid a b) = - (\<Sum>(a, b)\<leftarrow>adj ring. trapezoid a b)" .
  have w: "trapezoid (hd ring) (last ring) = - trapezoid (last ring) (hd ring)"
    by (rule trapezoid_swap)
  from False show ?thesis
    by (simp add: signedAreaLonLat_value_def s w last_rev hd_rev jsnum_div_neg flip: jsnum_neg_add)
qed

lemma ringAreaMeters2_value_rev:
  "ringAreaMeters2_value (rev ring) = ringAreaMeters2_value ring"
proof (cases "length ring < 3")
  case True
  then show ?thesis by (simp add: ringAreaMeters2_value_def)
next
  case False
  then have ne: "ring \<noteq> []" by (cases ring) simp_all
  have "(\<Sum>(a, b)\<leftarrow>adj (rev (map project ring)). cross a b) =
        (\<Sum>(a, b)\<leftarrow>adj (map project ring). cross b a)"
    by (rule sum_list_adj_rev)
  also have "\<dots> = (\<Sum>p\<leftarrow>adj (map project ring). - (case p of (a, b) \<Rightarrow> cross a b))"
    by (subst cross_swap) (simp add: case_prod_unfold)
  also have "\<dots> = - (\<Sum>(a, b)\<leftarrow>adj (map project ring). cross a b)"
    by (rule sum_list_neg)
  finally have s: "(\<Sum>(a, b)\<leftarrow>adj (map project (rev ring)). cross a b) =
      - (\<Sum>(a, b)\<leftarrow>adj (map project ring). cross a b)"
    by (simp add: rev_map)
  have w: "cross (project (hd ring)) (project (last ring)) =
      - cross (project (last ring)) (project (hd ring))"
    by (rule cross_swap)
  from False ne show ?thesis
    by (simp add: ringAreaMeters2_value_def s w last_rev hd_rev Math_abs_def jsnum_abs_neg
        flip: jsnum_neg_add)
qed

subsection \<open>Rings of fewer than 3 points\<close>

lemma jsnum_self_cancel_not_negative: "\<not> js_lt ((a + - a) / Fin 2) 0"
  by (cases a) (simp_all add: zero_jsnum_def)

lemma jsnum_self_diff_times_not_negative: "\<not> js_lt ((a - a) * b / Fin 2) 0"
  by (cases a; cases b) (simp_all add: zero_jsnum_def minus_jsnum_def)

lemma short_ring_not_negative:
  assumes "length ring < 3"
  shows "\<not> js_lt (signedAreaLonLat_value ring) 0"
proof -
  from assms consider "ring = []" | p where "ring = [p]" | p q where "ring = [p, q]"
    by (cases ring rule: adj.cases) auto
  then show ?thesis
  proof cases
    case 1
    then show ?thesis
      by (simp add: signedAreaLonLat_value_def zero_jsnum_def)
  next
    case 2
    then show ?thesis
      using jsnum_self_diff_times_not_negative [of "fst p" "snd p + snd p"]
      by (simp add: signedAreaLonLat_value_def trapezoid_def)
  next
    case 3
    have "trapezoid q p + trapezoid p q = trapezoid q p + - trapezoid q p"
      by (subst (2) trapezoid_swap) simp
    with 3 show ?thesis
      using jsnum_self_cancel_not_negative [of "trapezoid q p"]
      by (simp add: signedAreaLonLat_value_def)
  qed
qed

lemma ring_step_short: "length ring < 3 \<Longrightarrow> ring_step tot ring = tot"
  by (simp add: ring_step_def short_ring_not_negative ringAreaMeters2_value_def)

subsection \<open>The result in terms of the total\<close>

lemma calculatePolygonAreaSqFt_closed:
  "calculatePolygonAreaSqFt (Some \<lparr>rings = Some rs\<rparr>) =
     Inr (if rs = [] then None
          else if js_gt (foldl ring_step 0 rs * meters2ToSqFt) 0
               then Some (Math_round (foldl ring_step 0 rs * meters2ToSqFt))
               else None)"
  by (simp add: calculatePolygonAreaSqFt_def calculatePolygonAreaSqFt_loop_closed Let_def)

lemma zero_total_unavailable: "\<not> js_gt (0 * meters2ToSqFt) 0"
  by (simp add: js_gt_def zero_jsnum_def meters2ToSqFt_def)

subsection \<open>Values of the projection\<close>

lemma lonLatToMercator_finite:
  assumes "- 90 < lat" "lat < 90"
  shows "lonLatToMercator (Fin lon) (Fin lat) =
    (Fin (6378137 * (lon * pi / 180)), Fin (6378137 * ln (tan (pi / 4 + lat * pi / 180 / 2))))"
proof -
  let ?a = "pi / 4 + lat * pi / 180 / 2"
  have "0 < pi * (lat + 90)" using assms by (intro mult_pos_pos) simp_all
  then have lo: "0 < ?a" by (simp add: field_simps)
  have "0 < pi * (90 - lat)" using assms by (intro mult_pos_pos) simp_all
  then have hi: "?a < pi / 2" by (simp add: field_simps)
  have c: "cos ?a \<noteq> 0" using cos_gt_zero [OF lo hi] by simp
  have t: "0 < tan ?a" using tan_gt_zero [OF lo hi] .
  show ?thesis
    using c t by (simp add: lonLatToMercator_def Math_PI_def R_def Let_def)
qed

lemma lonLatToMercator_equator:
  "lonLatToMercator (Fin lon) (Fin 0) = (Fin (6378137 * (lon * pi / 180)), Fin 0)"
  using lonLatToMercator_finite [of 0 lon] by (simp add: tan_45)

lemma lonLatToMercator_30:
  "lonLatToMercator (Fin lon) (Fin 30) =
     (Fin (6378137 * (lon * pi / 180)), Fin (6378137 * (ln 3 / 2)))"
proof -
  have "pi / 4 + 30 * pi / 180 / 2 = pi / 3" by simp
  then show ?thesis
    using lonLatToMercator_finite [of 30 lon] by (simp add: tan_60 ln_sqrt)
qed

lemma lonLatToMercator_south_pole:
  "lonLatToMercator (Fin lon) (Fin (- 90)) = (Fin (6378137 * (lon * pi / 180)), NInf)"
  by (simp add: lonLatToMercator_def Math_PI_def R_def Let_def)

lemma lonLatToMercator_north_pole:
  "lonLatToMercator (Fin lon) (Fin 90) =
     (Fin (6378137 * (lon * pi / 180)), Fin (6378137 * ln 16331239353195370))"
  by (simp add: lonLatToMercator_def Math_PI_def R_def Let_def)

subsection \<open>The example rings\<close>

lemma signed_triangle: "signedAreaLonLat_value triangle = Fin 15"
  by (simp add: signedAreaLonLat_value_def triangle_def trapezoid_def minus_jsnum_def zero_jsnum_def)

lemma signed_sliver: "signedAreaLonLat_value sliver = Fin (15 / 10 ^ 15)"
  by (simp add: signedAreaLonLat_value_def sliver_def trapezoid_def minus_jsnum_def zero_jsnum_def)

lemma signed_pole_triangle: "signedAreaLonLat_value pole_triangle = Fin 90"
  by (simp add: signedAreaLonLat_value_def pole_triangle_def trapezoid_def minus_jsnum_def zero_jsnum_def)

lemma m2_triangle:
  "ringAreaMeters2_value triangle =
     Fin (6378137 * (pi / 180) * (6378137 * (ln 3 / 2)) / 2)"
  by (simp add: ringAreaMeters2_value_def triangle_def project_def cross_def minus_jsnum_def
      zero_jsnum_def Math_abs_def lonLatToMercator_equator lonLatToMercator_30)

lemma m2_sliver:
  "ringAreaMeters2_value sliver =
     Fin (6378137 * (pi / 180 / 10 ^ 15) * (6378137 * (ln 3 / 2)) / 2)"
  by (simp add: ringAreaMeters2_value_def sliver_def project_def cross_def minus_jsnum_def
      zero_jsnum_def Math_abs_def lonLatToMercator_equator lonLatToMercator_30)

lemma m2_pole_triangle: "ringAreaMeters2_value pole_triangle = PInf"
  using lonLatToMercator_south_pole [of 0]
  by (simp add: ringAreaMeters2_value_def pole_triangle_def project_def cross_def minus_jsnum_def
      zero_jsnum_def Math_abs_def lonLatToMercator_equator)

lemma ln3_bounds: "2 / 3 \<le> ln (3::real)" "ln (3::real) < 3"
proof -
  have "ln (1 / 3 :: real) \<le> 1 / 3 - 1"
    by (rule ln_le_minus_one) simp
  then show "2 / 3 \<le> ln (3::real)"
    by (simp add: ln_div)
  show "ln (3::real) < 3"
    by (rule ln_less_self) simp
qed

lemma pi_ln3_upper: "pi * ln 3 < 12"
proof -
  have "pi * ln 3 < 4 * 3"
    using pi_less_4 ln3_bounds(2) by (intro mult_strict_mono) simp_all
  then show ?thesis by simp
qed

lemma pi_ln3_lower: "4 / 3 \<le> pi * ln 3"
proof -
  have "2 * (2 / 3) \<le> pi * ln 3"
    using pi_ge_two ln3_bounds(1) by (intro mult_mono) simp_all
  then show ?thesis by simp
qed

lemma total_sliver:
  "foldl ring_step 0 [sliver] * meters2ToSqFt =
     Fin (6378137 * (pi / 180 / 10 ^ 15) * (6378137 * (ln 3 / 2)) / 2
          * (1076391041671 / 100000000000))"
  by (simp add: ring_step_def signed_sliver m2_sliver zero_jsnum_def meters2ToSqFt_def)

lemma sliver_total_small:
  "\<exists>t. foldl ring_step 0 [sliver] * meters2ToSqFt = Fin t \<and> 0 < t \<and> t < 1 / 2"
proof -
  define t :: real where
    "t = 6378137 * (pi / 180 / 10 ^ 15) * (6378137 * (ln 3 / 2)) / 2
          * (1076391041671 / 100000000000)"
  have eq: "t = (6378137 * 6378137 * 1076391041671 / (180 * 10 ^ 15 * 4 * 100000000000))
              * (pi * ln 3)"
    by (simp add: t_def)
  have pos: "0 < t"
    using pi_ln3_lower by (simp add: eq)
  have small: "t < 1 / 2"
    using pi_ln3_upper by (simp add: eq)
  have "foldl ring_step 0 [sliver] * meters2ToSqFt = Fin t"
    by (simp only: total_sliver t_def)
  with pos small show ?thesis by blast
qed

lemma calculatePolygonAreaSqFt_general:
  "calculatePolygonAreaSqFt g =
     Inr (case g of
            None \<Rightarrow> None
          | Some geo \<Rightarrow>
              (case rings geo of
                 None \<Rightarrow> None
               | Some rs \<Rightarrow>
                   if rs = [] then None
                   else if js_gt (foldl ring_step 0 rs * meters2ToSqFt) 0
                        then Some (Math_round (foldl ring_step 0 rs * meters2ToSqFt))
                        else None))"
  by (simp add: calculatePolygonAreaSqFt_def calculatePolygonAreaSqFt_loop_closed Let_def
      split: option.splits)

lemma rounded_positive:
  assumes "js_gt x 0"
  shows "Math_round x = PInf \<or> (\<exists>n::nat. Math_round x = Fin (real n))"
proof (cases x)
  case (Fin t)
  with assms have "0 < t" by (simp add: js_gt_def zero_jsnum_def)
  then have "0 \<le> \<lfloor>t + 1 / 2\<rfloor>" by simp
  then have "real_of_int \<lfloor>t + 1 / 2\<rfloor> = real (nat \<lfloor>t + 1 / 2\<rfloor>)" by simp
  with Fin show ?thesis by auto
qed (use assms in \<open>simp_all add: js_gt_def zero_jsnum_def\<close>)

lemma total_cases:
  "(if js_gt x 0 then Some (Math_round x) else None) =
     (case x of
        Fin t \<Rightarrow> if t \<le> 0 then None else Some (Fin (of_int (round t)))
      | PInf \<Rightarrow> Some PInf
      | NInf \<Rightarrow> None
      | NaN \<Rightarrow> None)"
  by (cases x) (auto simp add: js_gt_def zero_jsnum_def round_def)

lemma signed_pole_quad: "signedAreaLonLat_value pole_quad = Fin 120"
  by (simp add: signedAreaLonLat_value_def pole_quad_def trapezoid_def minus_jsnum_def zero_jsnum_def)

lemma m2_pole_quad: "ringAreaMeters2_value pole_quad = PInf"
  using lonLatToMercator_south_pole [of 0]
  by (simp add: ringAreaMeters2_value_def pole_quad_def project_def cross_def minus_jsnum_def
      zero_jsnum_def Math_abs_def lonLatToMercator_equator lonLatToMercator_30)

lemma small_total_rounds_to_zero:
  assumes "rs \<noteq> []" "foldl ring_step 0 rs * meters2ToSqFt = Fin t" "0 < t" "t < 1 / 2"
  shows "calculatePolygonAreaSqFt (Some \<lparr>rings = Some rs\<rparr>) = Inr (Some (Fin 0))"
proof -
  from assms(3,4) have "\<lfloor>t + 1 / 2\<rfloor> = 0"
    by (intro floor_unique) simp_all
  with assms(1,3) show ?thesis
    by (simp only: calculatePolygonAreaSqFt_closed assms(2)) (simp add: js_gt_def zero_jsnum_def)
qed

lemma area_sliver:
  "calculatePolygonAreaSqFt (Some \<lparr>rings = Some [sliver]\<rparr>) = Inr (Some (Fin 0))"
proof -
  from sliver_total_small obtain t where
    "foldl ring_step 0 [sliver] * meters2ToSqFt = Fin t" "0 < t" "t < 1 / 2"
    by blast
  then show ?thesis
    by (intro small_total_rounds_to_zero [of "[sliver]" t]) simp_all
qed

lemma total_triangle:
  "foldl ring_step 0 [triangle] * meters2ToSqFt =
     Fin (6378137 * (pi / 180) * (6378137 * (ln 3 / 2)) / 2
          * (1076391041671 / 100000000000))"
  by (simp add: ring_step_def signed_triangle m2_triangle zero_jsnum_def meters2ToSqFt_def)

lemma area_triangle:
  "\<exists>n. calculatePolygonAreaSqFt (Some \<lparr>rings = Some [triangle]\<rparr>) = Inr (Some (Fin n)) \<and>
       10 ^ 11 < n"
proof -
  define t :: real where
    "t = 6378137 * (pi / 180) * (6378137 * (ln 3 / 2)) / 2 * (1076391041671 / 100000000000)"
  have eq: "t = (6378137 * 6378137 * 1076391041671 / (180 * 4 * 100000000000)) * (pi * ln 3)"
    by (simp add: t_def)
  have big: "10 ^ 11 + 1 < t"
    using pi_ln3_lower by (simp add: eq)
  then have "10 ^ 11 < real_of_int \<lfloor>t + 1 / 2\<rfloor>"
    by linarith
  moreover have tot: "foldl ring_step 0 [triangle] * meters2ToSqFt = Fin t"
    by (simp only: total_triangle t_def)
  moreover from big have "0 < t" by simp
  ultimately show ?thesis
    by (simp only: calculatePolygonAreaSqFt_closed) (simp add: js_gt_def zero_jsnum_def)
qed

lemma area_rev_triangle:
  "calculatePolygonAreaSqFt (Some \<lparr>rings = Some [rev triangle]\<rparr>) = Inr None"
proof -
  define t :: real where
    "t = 6378137 * (pi / 180) * (6378137 * (ln 3 / 2)) / 2 * (1076391041671 / 100000000000)"
  have eq: "t = (6378137 * 6378137 * 1076391041671 / (180 * 4 * 100000000000)) * (pi * ln 3)"
    by (simp add: t_def)
  have pos: "0 < t"
    using pi_ln3_lower by (simp add: eq)
  have "foldl ring_step 0 [rev triangle] * meters2ToSqFt = Fin (- t)"
    unfolding t_def
    by (simp add: ring_step_def signedAreaLonLat_value_rev ringAreaMeters2_value_rev
        signed_triangle m2_triangle zero_jsnum_def meters2ToSqFt_def minus_jsnum_def)
  then show ?thesis
    by (simp only: calculatePolygonAreaSqFt_closed) (use pos in \<open>simp add: js_gt_def zero_jsnum_def\<close>)
qed

lemma area_pole_quad:
  "calculatePolygonAreaSqFt (Some \<lparr>rings = Some [pole_quad]\<rparr>) = Inr (Some PInf)"
proof -
  have t: "foldl ring_step 0 [pole_quad] * meters2ToSqFt = PInf"
    by (simp add: ring_step_def signed_pole_quad m2_pole_quad zero_jsnum_def meters2ToSqFt_def)
  show ?thesis
    by (simp only: calculatePolygonAreaSqFt_closed t) (simp add: js_gt_def zero_jsnum_def)
qed

lemma area_whole_or_infinite:
  assumes "calculatePolygonAreaSqFt g = Inr (Some v)"
  shows "v = PInf \<or> (\<exists>n::nat. v = Fin (real n))"
  using assms rounded_positive
  by (auto simp add: calculatePolygonAreaSqFt_general split: option.splits if_splits)

subsection \<open>The building footprints\<close>

lemma whole_zero: "whole 0"
  by (auto simp add: whole_def zero_jsnum_def intro: exI [of _ 0])

lemma whole_add: "whole a \<Longrightarrow> whole b \<Longrightarrow> whole (a + b)"
proof -
  assume "whole a" "whole b"
  then consider "a = PInf" | "b = PInf" | m n :: nat where "a = Fin (real m)" "b = Fin (real n)"
    unfolding whole_def by blast
  then show ?thesis
  proof cases
    case 1
    with \<open>whole b\<close> show ?thesis by (auto simp add: whole_def)
  next
    case 2
    with \<open>whole a\<close> show ?thesis by (auto simp add: whole_def)
  next
    case 3
    then have "a + b = Fin (real (m + n))" by simp
    then show ?thesis unfolding whole_def by blast
  qed
qed

lemma whole_add_zero_iff:
  "whole a \<Longrightarrow> whole b \<Longrightarrow> a + b = 0 \<longleftrightarrow> a = 0 \<and> b = 0"
  by (auto simp add: whole_def zero_jsnum_def)

lemma whole_truthy: "whole v \<Longrightarrow> truthy (Some v) \<longleftrightarrow> v \<noteq> 0"
  by (auto simp add: whole_def zero_jsnum_def)

lemma whole_round: "whole v \<Longrightarrow> Math_round v = v"
proof -
  assume "whole v"
  then consider "v = PInf" | n :: nat where "v = Fin (real n)"
    unfolding whole_def by blast
  then show ?thesis
  proof cases
    case 2
    have "\<lfloor>real n + 1 / 2\<rfloor> = int n"
      by (intro floor_unique) simp_all
    with 2 show ?thesis by simp
  qed simp
qed

lemma feature_area_cases:
  "(calculatePolygonAreaSqFt (geometry f) = Inr None \<and> feature_area f = 0) \<or>
   (calculatePolygonAreaSqFt (geometry f) = Inr (Some (feature_area f)) \<and> whole (feature_area f))"
proof (cases "calculatePolygonAreaSqFt (geometry f)")
  case (Inl e)
  then show ?thesis by (simp add: calculatePolygonAreaSqFt_general)
next
  case (Inr r)
  show ?thesis
  proof (cases r)
    case None
    with Inr show ?thesis by (simp add: feature_area_def)
  next
    case (Some v)
    with Inr have "whole v"
      unfolding whole_def by (intro area_whole_or_infinite [of "geometry f"]) simp
    with Inr Some show ?thesis by (simp add: feature_area_def)
  qed
qed

lemma whole_feature_area: "whole (feature_area f)"
  using feature_area_cases [of f] whole_zero by auto

lemma forEach_feature_closed:
  "forEach_feature fs tot = Inr (tot + (\<Sum>f\<leftarrow>fs. feature_area f))"
proof (induction fs arbitrary: tot)
  case Nil
  then show ?case by simp
next
  case (Cons f fs)
  from feature_area_cases [of f] show ?case
  proof
    assume "calculatePolygonAreaSqFt (geometry f) = Inr None \<and> feature_area f = 0"
    then show ?thesis by (simp add: Cons)
  next
    assume a: "calculatePolygonAreaSqFt (geometry f) = Inr (Some (feature_area f)) \<and>
      whole (feature_area f)"
    show ?thesis
    proof (cases "feature_area f = 0")
      case True
      with a show ?thesis by (simp add: Cons whole_truthy)
    next
      case False
      with a show ?thesis by (simp add: Cons whole_truthy add.assoc)
    qed
  qed
qed

lemma whole_sum_list: "whole (\<Sum>f\<leftarrow>fs. feature_area f)"
  by (induction fs) (simp_all add: whole_zero whole_add whole_feature_area)

lemma sum_list_feature_area_zero:
  "(\<Sum>f\<leftarrow>fs. feature_area f) = 0 \<longleftrightarrow> (\<forall>f\<in>set fs. feature_area f = 0)"
  by (induction fs) (simp_all add: whole_add_zero_iff whole_feature_area whole_sum_list)

lemma feature_area_zero_iff:
  "feature_area f = 0 \<longleftrightarrow>
     calculatePolygonAreaSqFt (geometry f) = Inr None \<or>
     calculatePolygonAreaSqFt (geometry f) = Inr (Some 0)"
  using feature_area_cases [of f] by auto

lemma truthy_zero: "\<not> truthy (Some 0)"
  by (simp add: zero_jsnum_def)

lemma fetchBuildingFootprintArea_closed:
  "fetchBuildingFootprintArea (Some fs) =
     (if fs = [] \<or> (\<Sum>f\<leftarrow>fs. feature_area f) = 0 then None
      else Some (\<Sum>f\<leftarrow>fs. feature_area f))"
  by (simp add: fetchBuildingFootprintArea_def forEach_feature_closed whole_truthy whole_round
      whole_sum_list truthy_zero)

subsection \<open>The first version on the triangle\<close>

lemma gis_area_triangle:
  "calculatePolygonAreaSqFt_gis (Some \<lparr>rings = Some [triangle]\<rparr>) =
     Inr (Some (Fin (30 * 12365 * (107639 / 10000))))"
  by (simp add: calculatePolygonAreaSqFt_gis_def calculatePolygonAreaSqFt_gis_loop.simps
      elem_at_def triangle_def minus_jsnum_def zero_jsnum_def Math_abs_def Let_def)

subsection \<open>The formulas of the specification\<close>

lemma radians_eq: "(d * Math_PI) / Fin 180 = spec_radians d"
  by (cases d) (simp_all add: Math_PI_def spec_radians_def)

lemma quarter_pi: "Math_PI / Fin 4 = Fin (pi / 4)"
  by (simp add: Math_PI_def)

lemma project_eq_spec: "project p = spec_project p"
  by (simp add: project_def spec_project_def lonLatToMercator_def Let_def radians_eq R_def
      quarter_pi)

lemma zip_snoc_adj: "zip (x # xs) (xs @ [y]) = adj (x # xs) @ [(last (x # xs), y)]"
  by (induction xs arbitrary: x) simp_all

lemma zip_rotate1_adj: "ps \<noteq> [] \<Longrightarrow> zip ps (rotate1 ps) = adj ps @ [(last ps, hd ps)]"
  by (cases ps) (simp_all add: zip_snoc_adj del: last.simps)

lemma ringAreaMeters2_value_spec:
  assumes "3 \<le> length ring"
  shows "ringAreaMeters2_value ring = spec_ring_magnitude ring"
proof -
  from assms have ne: "map project ring \<noteq> []" by (cases ring) simp_all
  have p: "map spec_project ring = map project ring"
    by (simp add: project_eq_spec)
  from assms ne show ?thesis
    by (simp add: ringAreaMeters2_value_def spec_ring_magnitude_def spec_shoelace_def p
        zip_rotate1_adj [OF ne] Math_abs_def cross_def [abs_def] last_map hd_map)
qed

subsection \<open>A rectangle with a hole\<close>









subsection \<open>An outer ring and a hole\<close>






subsection \<open>The signed area of the specification, and the box\<close>

lemma signedAreaLonLat_value_spec: "signedAreaLonLat_value ring = spec_signed_area ring"
proof (cases "ring = []")
  case True
  then show ?thesis
    by (simp add: signedAreaLonLat_value_def spec_signed_area_def)
next
  case False
  then show ?thesis
    by (simp add: signedAreaLonLat_value_def spec_signed_area_def zip_rotate1_adj
        trapezoid_def [abs_def] add.commute)
qed

lemma signedAreaLonLat_spec: "signedAreaLonLat ring = Inr (spec_signed_area ring)"
  by (simp add: signedAreaLonLat_closed signedAreaLonLat_value_spec)

lemma ringAreaMeters2_spec:
  "ringAreaMeters2 ring = Inr (if length ring < 3 then 0 else spec_ring_magnitude ring)"
  by (simp add: ringAreaMeters2_closed ringAreaMeters2_value_spec)
    (simp add: ringAreaMeters2_value_def)

lemma ring_step_spec:
  "ring_step tot ring =
     (if js_lt (spec_signed_area ring) 0
      then tot - (if length ring < 3 then 0 else spec_ring_magnitude ring)
      else tot + (if length ring < 3 then 0 else spec_ring_magnitude ring))"
  using ringAreaMeters2_spec [of ring]
  by (simp add: ring_step_def signedAreaLonLat_value_spec ringAreaMeters2_closed)

lemma ring_step_contribution: "ring_step tot ring = tot + spec_contribution ring"
  by (simp add: ring_step_spec spec_contribution_def minus_jsnum_def)

lemma foldl_ring_step_contribution:
  "foldl ring_step tot rs = foldl (\<lambda>t ring. t + spec_contribution ring) tot rs"
  by (induction rs arbitrary: tot) (simp_all add: ring_step_contribution)

lemma signed_box: "spec_signed_area box = Fin 60"
  by (simp add: spec_signed_area_def box_def minus_jsnum_def zero_jsnum_def)


lemma signed_triangle_cw: "spec_signed_area triangle_cw = Fin (- 15)"
  by (simp add: spec_signed_area_def triangle_cw_def minus_jsnum_def zero_jsnum_def)

lemma m2_box:
  "ringAreaMeters2_value box = Fin (2 * (6378137 * (pi / 180)) * (6378137 * (ln 3 / 2)))"
  by (simp add: ringAreaMeters2_value_def box_def project_def cross_def minus_jsnum_def
      zero_jsnum_def Math_abs_def lonLatToMercator_equator lonLatToMercator_30)


lemma m2_triangle_cw:
  "ringAreaMeters2_value triangle_cw = Fin (6378137 * (pi / 180) * (6378137 * (ln 3 / 2)) / 2)"
  by (simp add: ringAreaMeters2_value_def triangle_cw_def project_def cross_def minus_jsnum_def
      zero_jsnum_def Math_abs_def lonLatToMercator_equator lonLatToMercator_30)

lemma loop_box:
  "calculatePolygonAreaSqFt_loop [box] 0 0 =
     Inr (Fin (2 * (6378137 * (pi / 180)) * (6378137 * (ln 3 / 2))))"
  by (simp add: calculatePolygonAreaSqFt_loop_closed ring_step_def signedAreaLonLat_value_spec
      signed_box m2_box zero_jsnum_def)

lemma magnitude_triangle_cw:
  "(if length triangle_cw < 3 then 0 else spec_ring_magnitude triangle_cw) =
     Fin (6378137 * (pi / 180) * (6378137 * (ln 3 / 2)) / 2)"
proof -
  have "3 \<le> length triangle_cw" by (simp add: triangle_cw_def)
  from ringAreaMeters2_value_spec [OF this] this show ?thesis
    by (simp add: m2_triangle_cw)
qed

section \<open>The claims\<close>

text \<open>
  C1. For every polygon and every ring in it, the sign of the ring's signed shoelace area on
  the raw longitude/latitude pairs decides its contribution. \<open>signedAreaLonLat\<close> returns
  that area (\<open>spec_signed_area\<close>); with \<open>before\<close> the running total over the rings in
  front of ring \<open>k\<close> and \<open>m2\<close> the magnitude of the projected ring, the loop goes on with
  \<open>before - m2\<close> when the signed area is negative and with \<open>before + m2\<close> otherwise;
  so the total of the polygon is the sum, from the left, of the magnitudes, each negated
  when its ring's signed area is negative.
\<close>

theorem ring_sign_decides_contribution:
  assumes "k < length rs"
  shows "\<exists>m2 before.
     signedAreaLonLat (rs ! k) = Inr (spec_signed_area (rs ! k)) \<and>
     ringAreaMeters2 (rs ! k) = Inr m2 \<and>
     m2 = (if length (rs ! k) < 3 then 0 else spec_ring_magnitude (rs ! k)) \<and>
     calculatePolygonAreaSqFt_loop (take k rs) 0 0 = Inr before \<and>
     calculatePolygonAreaSqFt_loop rs 0 0 = calculatePolygonAreaSqFt_loop rs k before \<and>
     calculatePolygonAreaSqFt_loop rs k before =
       calculatePolygonAreaSqFt_loop rs (Suc k)
         (if js_lt (spec_signed_area (rs ! k)) 0 then before - m2 else before + m2) \<and>
     calculatePolygonAreaSqFt_loop (take (Suc k) rs) 0 0 =
       Inr (if js_lt (spec_signed_area (rs ! k)) 0 then before - m2 else before + m2) \<and>
     calculatePolygonAreaSqFt_loop rs 0 0 =
       Inr (foldl (\<lambda>t ring. t + spec_contribution ring) 0 rs)"
proof -
  let ?before = "foldl ring_step 0 (take k rs)"
  let ?m2 = "if length (rs ! k) < 3 then 0 else spec_ring_magnitude (rs ! k)"
  let ?after = "if js_lt (spec_signed_area (rs ! k)) 0 then ?before - ?m2 else ?before + ?m2"
  have after: "?after = ring_step ?before (rs ! k)"
    by (simp only: ring_step_spec)
  have "foldl ring_step 0 (take k rs @ drop k rs) = foldl ring_step ?before (drop k rs)"
    by (simp only: foldl_append)
  then have all: "foldl ring_step 0 rs = foldl ring_step ?before (drop k rs)"
    by simp
  from assms have d: "drop k rs = rs ! k # drop (Suc k) rs"
    by (simp add: Cons_nth_drop_Suc)
  from assms have t: "take (Suc k) rs = take k rs @ [rs ! k]"
    by (simp add: take_Suc_conv_app_nth)
  have 1: "signedAreaLonLat (rs ! k) = Inr (spec_signed_area (rs ! k))"
    by (rule signedAreaLonLat_spec)
  have 2: "ringAreaMeters2 (rs ! k) = Inr ?m2"
    by (rule ringAreaMeters2_spec)
  have 3: "calculatePolygonAreaSqFt_loop (take k rs) 0 0 = Inr ?before"
    by (simp add: calculatePolygonAreaSqFt_loop_closed)
  have 4: "calculatePolygonAreaSqFt_loop rs 0 0 = calculatePolygonAreaSqFt_loop rs k ?before"
    by (simp add: calculatePolygonAreaSqFt_loop_closed all)
  have 5: "calculatePolygonAreaSqFt_loop rs k ?before =
       calculatePolygonAreaSqFt_loop rs (Suc k) ?after"
    by (simp only: after calculatePolygonAreaSqFt_loop_closed d) simp
  have 6: "calculatePolygonAreaSqFt_loop (take (Suc k) rs) 0 0 = Inr ?after"
    by (simp only: after calculatePolygonAreaSqFt_loop_closed t) simp
  have 7: "calculatePolygonAreaSqFt_loop rs 0 0 =
       Inr (foldl (\<lambda>t ring. t + spec_contribution ring) 0 rs)"
    by (simp add: calculatePolygonAreaSqFt_loop_closed foldl_ring_step_contribution)
  from 1 2 3 4 5 6 7 show ?thesis by blast
qed

text \<open>
  At the second ring of \<open>[box, triangle_cw]\<close>: the signed area of the clockwise
  triangle is \<open>-15\<close>, and its magnitude is subtracted from the magnitude of the box.
\<close>

theorem ring_sign_decides_contribution_witness:
  "1 < length [box, triangle_cw] \<and>
   signedAreaLonLat triangle_cw = Inr (Fin (- 15)) \<and>
   js_lt (Fin (- 15)) 0 \<and>
   ringAreaMeters2 triangle_cw = Inr (Fin (6378137 * (pi / 180) * (6378137 * (ln 3 / 2)) / 2)) \<and>
   calculatePolygonAreaSqFt_loop [box] 0 0 =
     Inr (Fin (2 * (6378137 * (pi / 180)) * (6378137 * (ln 3 / 2)))) \<and>
   calculatePolygonAreaSqFt_loop [box, triangle_cw] 0 0 =
     Inr (Fin (2 * (6378137 * (pi / 180)) * (6378137 * (ln 3 / 2)))
          - Fin (6378137 * (pi / 180) * (6378137 * (ln 3 / 2)) / 2)) \<and>
   Fin (2 * (6378137 * (pi / 180)) * (6378137 * (ln 3 / 2)))
     - Fin (6378137 * (pi / 180) * (6378137 * (ln 3 / 2)) / 2) \<noteq>
   Fin (2 * (6378137 * (pi / 180)) * (6378137 * (ln 3 / 2)))
     + Fin (6378137 * (pi / 180) * (6378137 * (ln 3 / 2)) / 2)"
proof -
  have h: "1 < length [box, triangle_cw]" by simp
  from ring_sign_decides_contribution [OF h] obtain m2 before where
    s: "signedAreaLonLat ([box, triangle_cw] ! 1) = Inr (spec_signed_area ([box, triangle_cw] ! 1))"
    and m: "ringAreaMeters2 ([box, triangle_cw] ! 1) = Inr m2"
      "m2 = (if length ([box, triangle_cw] ! 1) < 3 then 0
             else spec_ring_magnitude ([box, triangle_cw] ! 1))"
    and b: "calculatePolygonAreaSqFt_loop (take 1 [box, triangle_cw]) 0 0 = Inr before"
    and a: "calculatePolygonAreaSqFt_loop (take (Suc 1) [box, triangle_cw]) 0 0 =
       Inr (if js_lt (spec_signed_area ([box, triangle_cw] ! 1)) 0 then before - m2
            else before + m2)"
    by blast
  from s have 1: "signedAreaLonLat triangle_cw = Inr (Fin (- 15))"
    by (simp add: signed_triangle_cw)
  have 2: "js_lt (Fin (- 15)) 0" by (simp add: zero_jsnum_def)
  have n: "[box, triangle_cw] ! 1 = triangle_cw" by simp
  from m(2) have m2: "m2 = Fin (6378137 * (pi / 180) * (6378137 * (ln 3 / 2)) / 2)"
    unfolding n magnitude_triangle_cw .
  with m(1) have 3: "ringAreaMeters2 triangle_cw =
      Inr (Fin (6378137 * (pi / 180) * (6378137 * (ln 3 / 2)) / 2))"
    by simp
  from b have before: "before = Fin (2 * (6378137 * (pi / 180)) * (6378137 * (ln 3 / 2)))"
    by (simp add: loop_box)
  from a have 4: "calculatePolygonAreaSqFt_loop [box, triangle_cw] 0 0 =
     Inr (Fin (2 * (6378137 * (pi / 180)) * (6378137 * (ln 3 / 2)))
          - Fin (6378137 * (pi / 180) * (6378137 * (ln 3 / 2)) / 2))"
    by (simp add: signed_triangle_cw zero_jsnum_def m2 before)
  have "0 < pi * ln 3" using pi_ln3_lower by simp
  then have 5: "Fin (2 * (6378137 * (pi / 180)) * (6378137 * (ln 3 / 2)))
     - Fin (6378137 * (pi / 180) * (6378137 * (ln 3 / 2)) / 2) \<noteq>
   Fin (2 * (6378137 * (pi / 180)) * (6378137 * (ln 3 / 2)))
     + Fin (6378137 * (pi / 180) * (6378137 * (ln 3 / 2)) / 2)"
    by (simp add: minus_jsnum_def)
  from h 1 2 3 4 5 loop_box show ?thesis by blast
qed

text \<open>
  C2. \<open>lonLatToMercator\<close> is the projection of the specification; for a ring of at
  least 3 points \<open>ringAreaMeters2\<close> returns the specification's magnitude of the projected
  ring; and the result is computed from the square-metre total times \<open>10.76391041671\<close>.
\<close>

theorem mercator_shoelace_formula:
  "lonLatToMercator lon lat = spec_project (lon, lat) \<and>
   (3 \<le> length ring \<longrightarrow> ringAreaMeters2 ring = Inr (spec_ring_magnitude ring)) \<and>
   (\<exists>totalMeters2.
      calculatePolygonAreaSqFt_loop rs 0 0 = Inr totalMeters2 \<and>
      calculatePolygonAreaSqFt (Some \<lparr>rings = Some rs\<rparr>) =
        Inr (if rs = [] then None
             else if js_gt (totalMeters2 * Fin 10.76391041671) 0
                  then Some (Math_round (totalMeters2 * Fin 10.76391041671))
                  else None))"
proof (intro conjI impI)
  show "lonLatToMercator lon lat = spec_project (lon, lat)"
    using project_eq_spec [of "(lon, lat)"] by (simp add: project_def)
next
  assume "3 \<le> length ring"
  then show "ringAreaMeters2 ring = Inr (spec_ring_magnitude ring)"
    by (simp add: ringAreaMeters2_closed ringAreaMeters2_value_spec)
next
  show "\<exists>totalMeters2.
      calculatePolygonAreaSqFt_loop rs 0 0 = Inr totalMeters2 \<and>
      calculatePolygonAreaSqFt (Some \<lparr>rings = Some rs\<rparr>) =
        Inr (if rs = [] then None
             else if js_gt (totalMeters2 * Fin 10.76391041671) 0
                  then Some (Math_round (totalMeters2 * Fin 10.76391041671))
                  else None)"
    by (simp add: calculatePolygonAreaSqFt_closed calculatePolygonAreaSqFt_loop_closed
        meters2ToSqFt_def)
qed

theorem mercator_shoelace_formula_witness:
  "3 \<le> length triangle \<and> ringAreaMeters2 triangle = Inr (spec_ring_magnitude triangle)"
proof (rule conjI)
  show a: "3 \<le> length triangle" by (simp add: triangle_def)
  show "ringAreaMeters2 triangle = Inr (spec_ring_magnitude triangle)"
    by (rule mercator_shoelace_formula [THEN conjunct2, THEN conjunct1, THEN mp, OF a])
qed

text \<open>
  C3 (amended). The square-feet total is the square-metre total times \<open>meters2ToSqFt\<close>.
  A total that is \<open>NaN\<close>, \<open>-Infinity\<close> or a finite value \<open>\<le> 0\<close> gives \<open>null\<close>; a
  positive finite total gives the nearest whole number; the total \<open>+Infinity\<close> is not
  \<open>null\<close> but is returned as \<open>+Infinity\<close>, because \<open>totalSqFt > 0\<close> holds for it.
\<close>

theorem area_result_from_total:
  "\<exists>totalMeters2.
     calculatePolygonAreaSqFt_loop rs 0 0 = Inr totalMeters2 \<and>
     calculatePolygonAreaSqFt (Some \<lparr>rings = Some rs\<rparr>) =
       Inr (if rs = [] then None
            else
              (case totalMeters2 * meters2ToSqFt of
                 Fin t \<Rightarrow> if t \<le> 0 then None else Some (Fin (of_int (round t)))
               | PInf \<Rightarrow> Some PInf
               | NInf \<Rightarrow> None
               | NaN \<Rightarrow> None))"
  by (simp add: calculatePolygonAreaSqFt_closed calculatePolygonAreaSqFt_loop_closed total_cases)

text \<open>
  The claim as stated (a non-finite total gives \<open>null\<close>) fails for the triangle
  \<open>[[0, -90], [1, 0], [-1, 0]]\<close>, whose first point projects to \<open>y = -Infinity\<close>.
\<close>

theorem infinite_total_is_returned:
  "calculatePolygonAreaSqFt_loop [pole_triangle] 0 0 = Inr PInf \<and>
   PInf * meters2ToSqFt = PInf \<and>
   calculatePolygonAreaSqFt (Some \<lparr>rings = Some [pole_triangle]\<rparr>) = Inr (Some PInf)"
proof -
  have t: "foldl ring_step 0 [pole_triangle] = PInf"
    by (simp add: ring_step_def signed_pole_triangle m2_pole_triangle zero_jsnum_def)
  have k: "PInf * meters2ToSqFt = PInf"
    by (simp add: meters2ToSqFt_def)
  show ?thesis
    by (simp only: calculatePolygonAreaSqFt_closed calculatePolygonAreaSqFt_loop_closed
          drop_0 t k)
       (simp add: js_gt_def zero_jsnum_def)
qed

text \<open>
  C4. Reversing a ring negates its signed longitude/latitude area and keeps its projected
  magnitude. The result of \<open>calculatePolygonAreaSqFt\<close> for a sole ring is not kept: the
  triangle \<open>[[0, 0], [1, 0], [0, 30]]\<close> gives a positive number of square feet, the same
  triangle in the opposite order gives \<open>null\<close>, because the loop subtracts the only ring.
\<close>

theorem reversed_sole_ring:
  "(\<exists>signed. signedAreaLonLat ring = Inr signed \<and> signedAreaLonLat (rev ring) = Inr (- signed)) \<and>
   ringAreaMeters2 (rev ring) = ringAreaMeters2 ring \<and>
   (\<exists>n. calculatePolygonAreaSqFt (Some \<lparr>rings = Some [triangle]\<rparr>) = Inr (Some (Fin n)) \<and>
        10 ^ 11 < n) \<and>
   calculatePolygonAreaSqFt (Some \<lparr>rings = Some [rev triangle]\<rparr>) = Inr None"
  using area_triangle area_rev_triangle
  by (simp add: signedAreaLonLat_closed ringAreaMeters2_closed signedAreaLonLat_value_rev
      ringAreaMeters2_value_rev)




text \<open>
  C6 (amended). \<open>fetchBuildingFootprintArea\<close> returns the sum of the areas of the
  features, a \<open>null\<close> area counting as zero, and it returns \<open>null\<close> exactly when there
  is no feature or every feature's area is \<open>null\<close> or \<open>0\<close>.
\<close>

theorem footprint_total:
  "fetchBuildingFootprintArea None = None \<and>
   fetchBuildingFootprintArea (Some fs) =
     (if fs = [] \<or> (\<Sum>f\<leftarrow>fs. feature_area f) = 0 then None
      else Some (\<Sum>f\<leftarrow>fs. feature_area f)) \<and>
   (fetchBuildingFootprintArea (Some fs) = None \<longleftrightarrow>
      fs = [] \<or>
      (\<forall>f\<in>set fs. calculatePolygonAreaSqFt (geometry f) = Inr None \<or>
                   calculatePolygonAreaSqFt (geometry f) = Inr (Some 0)))"
proof (intro conjI)
  show "fetchBuildingFootprintArea None = None"
    by (simp add: fetchBuildingFootprintArea_def)
  show "fetchBuildingFootprintArea (Some fs) =
     (if fs = [] \<or> (\<Sum>f\<leftarrow>fs. feature_area f) = 0 then None
      else Some (\<Sum>f\<leftarrow>fs. feature_area f))"
    by (rule fetchBuildingFootprintArea_closed)
  show "fetchBuildingFootprintArea (Some fs) = None \<longleftrightarrow>
      fs = [] \<or>
      (\<forall>f\<in>set fs. calculatePolygonAreaSqFt (geometry f) = Inr None \<or>
                   calculatePolygonAreaSqFt (geometry f) = Inr (Some 0))"
    by (simp add: fetchBuildingFootprintArea_closed sum_list_feature_area_zero
        feature_area_zero_iff)
qed

theorem footprint_total_witness:
  "fetchBuildingFootprintArea (Some [\<lparr>geometry = Some \<lparr>rings = Some [triangle]\<rparr>\<rparr>]) \<noteq> None"
  using footprint_total [of "[\<lparr>geometry = Some \<lparr>rings = Some [triangle]\<rparr>\<rparr>]"] area_triangle
  by (auto simp add: zero_jsnum_def)

text \<open>
  The claim as stated (\<open>null\<close> only when every polygon gives \<open>null\<close>) fails for one
  feature whose area is the number \<open>0\<close>.
\<close>

theorem zero_area_footprint_is_unavailable:
  "calculatePolygonAreaSqFt (geometry \<lparr>geometry = Some \<lparr>rings = Some [sliver]\<rparr>\<rparr>) =
     Inr (Some (Fin 0)) \<and>
   fetchBuildingFootprintArea (Some [\<lparr>geometry = Some \<lparr>rings = Some [sliver]\<rparr>\<rparr>]) = None"
  using area_sliver
  by (simp add: fetchBuildingFootprintArea_closed feature_area_def zero_jsnum_def)

text \<open>
  C7. A ring with fewer than 3 points, anywhere in a polygon, makes nothing throw; its
  magnitude is exactly zero, the running total is the one without it, and the result is the
  result over the other rings alone.
\<close>

theorem short_ring_contributes_nothing:
  assumes "length short < 3"
  shows "ringAreaMeters2 short = Inr 0 \<and>
         calculatePolygonAreaSqFt_loop (before @ short # after) 0 0 =
           calculatePolygonAreaSqFt_loop (before @ after) 0 0 \<and>
         calculatePolygonAreaSqFt (Some \<lparr>rings = Some (before @ short # after)\<rparr>) =
           calculatePolygonAreaSqFt (Some \<lparr>rings = Some (before @ after)\<rparr>) \<and>
         (\<exists>area. calculatePolygonAreaSqFt (Some \<lparr>rings = Some (before @ short # after)\<rparr>)
            = Inr area)"
proof -
  have f: "foldl ring_step 0 (before @ short # after) = foldl ring_step 0 (before @ after)"
    using assms by (simp add: ring_step_short)
  have "ringAreaMeters2 short = Inr 0"
    using assms by (simp add: ringAreaMeters2_def)
  moreover have "calculatePolygonAreaSqFt_loop (before @ short # after) 0 0 =
           calculatePolygonAreaSqFt_loop (before @ after) 0 0"
    using f by (simp add: calculatePolygonAreaSqFt_loop_closed)
  moreover have "calculatePolygonAreaSqFt (Some \<lparr>rings = Some (before @ short # after)\<rparr>) =
           calculatePolygonAreaSqFt (Some \<lparr>rings = Some (before @ after)\<rparr>)"
  proof (cases "before @ after = []")
    case True
    then show ?thesis
      using assms
      by (simp add: calculatePolygonAreaSqFt_closed ring_step_short zero_total_unavailable)
  next
    case False
    then show ?thesis
      by (simp only: calculatePolygonAreaSqFt_closed f) simp
  qed
  moreover have "\<exists>area. calculatePolygonAreaSqFt (Some \<lparr>rings = Some (before @ short # after)\<rparr>)
            = Inr area"
    by (simp only: calculatePolygonAreaSqFt_closed) simp
  ultimately show ?thesis by blast
qed

theorem short_ring_contributes_nothing_witness:
  "length segment < 3 \<and>
   (ringAreaMeters2 segment = Inr 0 \<and>
    calculatePolygonAreaSqFt_loop ([triangle] @ segment # []) 0 0 =
      calculatePolygonAreaSqFt_loop ([triangle] @ []) 0 0 \<and>
    calculatePolygonAreaSqFt (Some \<lparr>rings = Some ([triangle] @ segment # [])\<rparr>) =
      calculatePolygonAreaSqFt (Some \<lparr>rings = Some ([triangle] @ [])\<rparr>) \<and>
    (\<exists>area. calculatePolygonAreaSqFt (Some \<lparr>rings = Some ([triangle] @ segment # [])\<rparr>)
       = Inr area))"
proof (rule conjI)
  show "length segment < 3" by (simp add: segment_def)
  then show "ringAreaMeters2 segment = Inr 0 \<and>
    calculatePolygonAreaSqFt_loop ([triangle] @ segment # []) 0 0 =
      calculatePolygonAreaSqFt_loop ([triangle] @ []) 0 0 \<and>
    calculatePolygonAreaSqFt (Some \<lparr>rings = Some ([triangle] @ segment # [])\<rparr>) =
      calculatePolygonAreaSqFt (Some \<lparr>rings = Some ([triangle] @ [])\<rparr>) \<and>
    (\<exists>area. calculatePolygonAreaSqFt (Some \<lparr>rings = Some ([triangle] @ segment # [])\<rparr>)
       = Inr area)"
    by (rule short_ring_contributes_nothing)
qed

text \<open>
  C8. The two versions of \<open>calculatePolygonAreaSqFt\<close> are different functions: for the
  triangle \<open>[[0, 0], [1, 0], [0, 30]]\<close> the version of \<open>src/gis.js\<close> returns less
  than \<open>10^7\<close> and the Mercator version more than \<open>10^11\<close>.
\<close>

theorem area_versions_differ:
  "(\<exists>g a b. calculatePolygonAreaSqFt_gis g = Inr (Some (Fin a)) \<and>
            calculatePolygonAreaSqFt g = Inr (Some (Fin b)) \<and> a < 10 ^ 7 \<and> 10 ^ 11 < b) \<and>
   calculatePolygonAreaSqFt_gis \<noteq> calculatePolygonAreaSqFt"
proof -
  from area_triangle obtain n where
    n: "calculatePolygonAreaSqFt (Some \<lparr>rings = Some [triangle]\<rparr>) = Inr (Some (Fin n))"
      "10 ^ 11 < n"
    by blast
  have "(30 * 12365 * (107639 / 10000) :: real) < 10 ^ 7" by simp
  with n gis_area_triangle have 1:
    "\<exists>g a b. calculatePolygonAreaSqFt_gis g = Inr (Some (Fin a)) \<and>
            calculatePolygonAreaSqFt g = Inr (Some (Fin b)) \<and> a < 10 ^ 7 \<and> 10 ^ 11 < b"
    by blast
  then have "calculatePolygonAreaSqFt_gis \<noteq> calculatePolygonAreaSqFt"
    by force
  with 1 show ?thesis by blast
qed

text \<open>
  C9. The area of \<open>src/gis.js\<close> reads \<open>geometry.rings[0]\<close> only: two geometries with
  the same first ring have the same result, whatever rings follow, so a hole is never
  subtracted.
\<close>

theorem gis_area_depends_on_first_ring_only:
  "calculatePolygonAreaSqFt_gis (Some \<lparr>rings = Some (ring # holes)\<rparr>) =
   calculatePolygonAreaSqFt_gis (Some \<lparr>rings = Some (ring # holes')\<rparr>)"
  by (simp add: calculatePolygonAreaSqFt_gis_def elem_at_def)

text \<open>
  C10 (amended). A result that is not \<open>null\<close> is a non-negative whole number or
  \<open>+Infinity\<close>; a positive total below one half is rounded to \<open>0\<close>, and the ring
  \<open>[[0, 0], [1e-15, 0], [0, 30]]\<close> has such a total, so \<open>0\<close> is a possible result.
\<close>

theorem area_is_whole_or_infinite:
  "(calculatePolygonAreaSqFt g = Inr (Some v) \<longrightarrow> v = PInf \<or> (\<exists>n::nat. v = Fin (real n))) \<and>
   (rs \<noteq> [] \<and> calculatePolygonAreaSqFt_loop rs 0 0 = Inr totalMeters2 \<and>
    totalMeters2 * meters2ToSqFt = Fin t \<and> 0 < t \<and> t < 1 / 2 \<longrightarrow>
      calculatePolygonAreaSqFt (Some \<lparr>rings = Some rs\<rparr>) = Inr (Some (Fin 0))) \<and>
   calculatePolygonAreaSqFt (Some \<lparr>rings = Some [sliver]\<rparr>) = Inr (Some (Fin 0))"
proof (intro conjI impI)
  assume "calculatePolygonAreaSqFt g = Inr (Some v)"
  then show "v = PInf \<or> (\<exists>n::nat. v = Fin (real n))"
    by (rule area_whole_or_infinite)
next
  assume a: "rs \<noteq> [] \<and> calculatePolygonAreaSqFt_loop rs 0 0 = Inr totalMeters2 \<and>
    totalMeters2 * meters2ToSqFt = Fin t \<and> 0 < t \<and> t < 1 / 2"
  then have "foldl ring_step 0 rs * meters2ToSqFt = Fin t"
    by (simp add: calculatePolygonAreaSqFt_loop_closed)
  with a show "calculatePolygonAreaSqFt (Some \<lparr>rings = Some rs\<rparr>) = Inr (Some (Fin 0))"
    by (intro small_total_rounds_to_zero [of rs t]) simp_all
next
  show "calculatePolygonAreaSqFt (Some \<lparr>rings = Some [sliver]\<rparr>) = Inr (Some (Fin 0))"
    by (rule area_sliver)
qed

theorem area_is_whole_or_infinite_witness:
  "calculatePolygonAreaSqFt (Some \<lparr>rings = Some [sliver]\<rparr>) = Inr (Some (Fin 0)) \<and>
   (Fin 0 = PInf \<or> (\<exists>n::nat. Fin 0 = Fin (real n))) \<and>
   (\<exists>totalMeters2 t.
      [sliver] \<noteq> [] \<and> calculatePolygonAreaSqFt_loop [sliver] 0 0 = Inr totalMeters2 \<and>
      totalMeters2 * meters2ToSqFt = Fin t \<and> 0 < t \<and> t < 1 / 2 \<and>
      calculatePolygonAreaSqFt (Some \<lparr>rings = Some [sliver]\<rparr>) = Inr (Some (Fin 0)))"
proof (intro conjI)
  show a: "calculatePolygonAreaSqFt (Some \<lparr>rings = Some [sliver]\<rparr>) = Inr (Some (Fin 0))"
    by (rule area_sliver)
  show "Fin 0 = PInf \<or> (\<exists>n::nat. Fin 0 = Fin (real n))"
    by (rule area_is_whole_or_infinite [THEN conjunct1, THEN mp, OF a])
  from sliver_total_small obtain t where
    t: "foldl ring_step 0 [sliver] * meters2ToSqFt = Fin t" "0 < t" "t < 1 / 2"
    by blast
  have l: "calculatePolygonAreaSqFt_loop [sliver] 0 0 = Inr (foldl ring_step 0 [sliver])"
    by (simp add: calculatePolygonAreaSqFt_loop_closed)
  from l t have h: "[sliver] \<noteq> [] \<and>
      calculatePolygonAreaSqFt_loop [sliver] 0 0 = Inr (foldl ring_step 0 [sliver]) \<and>
      foldl ring_step 0 [sliver] * meters2ToSqFt = Fin t \<and> 0 < t \<and> t < 1 / 2"
    by simp
  from area_is_whole_or_infinite [THEN conjunct2, THEN conjunct1, THEN mp, OF h] h
  show "\<exists>totalMeters2 t.
      [sliver] \<noteq> [] \<and> calculatePolygonAreaSqFt_loop [sliver] 0 0 = Inr totalMeters2 \<and>
      totalMeters2 * meters2ToSqFt = Fin t \<and> 0 < t \<and> t < 1 / 2 \<and>
      calculatePolygonAreaSqFt (Some \<lparr>rings = Some [sliver]\<rparr>) = Inr (Some (Fin 0))"
    by blast
qed

text \<open>
  The claim as stated (every result is a whole number) fails for the ring
  \<open>[[0, -90], [1, 0], [0, 30], [-1, 0]]\<close>, whose result is \<open>+Infinity\<close>.
\<close>

theorem infinite_area_is_not_whole:
  "calculatePolygonAreaSqFt (Some \<lparr>rings = Some [pole_quad]\<rparr>) = Inr (Some PInf) \<and>
   \<not> (\<exists>n::nat. PInf = Fin (real n))"
  using area_pole_quad by simp

end
